theory Spec2Isabelle
  imports Main "HOL-Library.Word"
begin

section \<open>Data model\<close>

text \<open>
  An \<open>io.ReadWriteCloser\<close> interface value is either \<open>nil\<close> or a reference to an object
  that implements \<open>Read\<close>, \<open>Write\<close> and \<open>Close\<close>. Objects are identified by their
  address, and \<open>==\<close> on two interface values is equality of the references, as it is
  for the pointer-typed resources of the package's tests. The wrapper is itself such an
  object: passing it to its own \<open>Reset\<close> is passing \<open>Ref r\<close> for the receiver \<open>r\<close>.
\<close>

type_synonym addr = nat
type_synonym byte = "8 word"

datatype rwc_ref = NilRWC | Ref addr

text \<open>
  The four error variables of the package, and the errors of \<open>io\<close> that the resources of
  the tests return. A Go \<open>error\<close> result is an \<open>error option\<close>, \<open>None\<close> for \<open>nil\<close>.
\<close>

datatype error =
    ErrEqual
  | ErrEqualToSelf
  | ErrResetNil
  | ErrRWCReset
  | EOF
  | ErrClosedPipe
  | ErrOther string

text \<open>
  A run-time panic: the one \<open>NewResReadWriteCloser\<close> raises, and the one of the Go
  run time when a method is called on a nil interface value.
\<close>

datatype panic = PanicNilNotPermitted | PanicNilDereference

text \<open>
  The resources are external: the wrapper only calls their three methods. The state of
  all resources together is a value of an arbitrary type \<open>'w\<close>, and the methods are
  given by a record of functions (the dynamic dispatch of the interface), each taking
  the address of the receiver. \<open>Read\<close> fills the caller's buffer and so returns it.
\<close>

record 'w iface =
  iRead :: "addr \<Rightarrow> byte list \<Rightarrow> 'w \<Rightarrow> (int \<times> error option \<times> byte list) \<times> 'w"
  iWrite :: "addr \<Rightarrow> byte list \<Rightarrow> 'w \<Rightarrow> (int \<times> error option) \<times> 'w"
  iClose :: "addr \<Rightarrow> 'w \<Rightarrow> error option \<times> 'w"

text \<open>Every call the wrapper makes on a resource is recorded, in order.\<close>

datatype call = CallRead addr | CallWrite addr | CallClose addr

text \<open>
  The struct \<open>ResReadWriteCloser\<close> has the fields \<open>mu\<close>, \<open>rwc\<close> and \<open>count\<close>. The
  lock \<open>mu\<close> is modelled by atomicity: what the code does while holding it is one step
  of the model. The counter is a \<open>uint64\<close> whose \<open>Add\<close> wraps around.
\<close>

record ResReadWriteCloser =
  rwc :: rwc_ref
  count :: "64 word"

text \<open>The state of a system: the wrapper, the resources, and the calls made so far.\<close>

record 'w sys = ResReadWriteCloser +
  world :: 'w
  calls :: "call list"


section \<open>Calls on a resource\<close>

text \<open>
  \<open>reader.Read(p)\<close>, \<open>writer.Write(p)\<close> and \<open>old.Close()\<close>: dispatch on the
  reference, run the method on the resources, and record the call.
\<close>

definition call_Read ::
  "'w iface \<Rightarrow> addr \<Rightarrow> byte list \<Rightarrow> 'w sys \<Rightarrow> (int \<times> error option \<times> byte list) \<times> 'w sys" where
  "call_Read I a p s =
     (case iRead I a p (world s) of
        (res, w') \<Rightarrow> (res, s\<lparr>world := w', calls := calls s @ [CallRead a]\<rparr>))"

definition call_Write ::
  "'w iface \<Rightarrow> addr \<Rightarrow> byte list \<Rightarrow> 'w sys \<Rightarrow> (int \<times> error option) \<times> 'w sys" where
  "call_Write I a p s =
     (case iWrite I a p (world s) of
        (res, w') \<Rightarrow> (res, s\<lparr>world := w', calls := calls s @ [CallWrite a]\<rparr>))"

definition call_Close :: "'w iface \<Rightarrow> addr \<Rightarrow> 'w sys \<Rightarrow> error option \<times> 'w sys" where
  "call_Close I a s =
     (case iClose I a (world s) of
        (e, w') \<Rightarrow> (e, s\<lparr>world := w', calls := calls s @ [CallClose a]\<rparr>))"

section \<open>The operations of the wrapper\<close>

text \<open>
  \<open>NewResReadWriteCloser\<close> panics on \<open>nil\<close> and returns no wrapper then; otherwise
  the new struct holds the resource and a zero counter. \<open>start\<close> puts the new wrapper
  into a system with the given resources and no call made yet.
\<close>

definition NewResReadWriteCloser :: "rwc_ref \<Rightarrow> panic + ResReadWriteCloser" where
  "NewResReadWriteCloser x =
     (if x = NilRWC then Inl PanicNilNotPermitted else Inr \<lparr>rwc = x, count = 0\<rparr>)"

definition start :: "rwc_ref \<Rightarrow> 'w \<Rightarrow> panic + 'w sys" where
  "start x w =
     (case NewResReadWriteCloser x of
        Inl e \<Rightarrow> Inl e
      | Inr r \<Rightarrow> Inr \<lparr>rwc = rwc r, count = count r, world = w, calls = []\<rparr>)"

text \<open>
  What other goroutines do to the system between two steps of a call is a function on
  the state. \<open>Read\<close> and \<open>Write\<close> hold no lock between their steps, so each takes four
  of them: after the first load of the counter, after the snapshot of the resource
  (taken under the read lock), after the check before the call on the resource, and
  after that call has returned. The identity is a call that nothing else interferes with.
  The loads of the counter take no lock, so one of them may fall between two steps of
  a \<open>Reset\<close> of another goroutine; an interference is any function, which covers a
  part of a \<open>Reset\<close> as well as a whole one, or several.
\<close>

type_synonym 'w interference = "'w sys \<Rightarrow> 'w sys"

definition Read ::
  "'w iface \<Rightarrow> 'w interference \<Rightarrow> 'w interference \<Rightarrow> 'w interference \<Rightarrow> 'w interference
   \<Rightarrow> byte list \<Rightarrow> 'w sys \<Rightarrow> (panic + int \<times> error option \<times> byte list) \<times> 'w sys" where
  "Read I e1 e2 e3 e4 p s0 =
     (let startCount = count s0;
          s1 = e1 s0;
          reader = rwc s1;
          s2 = e2 s1
      in if startCount \<noteq> count s2 then (Inr (0, Some ErrRWCReset, p), s2)
         else let s3 = e3 s2
              in case reader of
                   NilRWC \<Rightarrow> (Inl PanicNilDereference, s3)
                 | Ref a \<Rightarrow>
                     (case call_Read I a p s3 of
                        ((n, err, p'), s4) \<Rightarrow>
                          let s5 = e4 s4
                          in if startCount \<noteq> count s5
                             then (Inr (n, Some ErrRWCReset, p'), s5)
                             else (Inr (n, err, p'), s5)))"

definition Write ::
  "'w iface \<Rightarrow> 'w interference \<Rightarrow> 'w interference \<Rightarrow> 'w interference \<Rightarrow> 'w interference
   \<Rightarrow> byte list \<Rightarrow> 'w sys \<Rightarrow> (panic + int \<times> error option) \<times> 'w sys" where
  "Write I e1 e2 e3 e4 p s0 =
     (let startCount = count s0;
          s1 = e1 s0;
          writer = rwc s1;
          s2 = e2 s1
      in if startCount \<noteq> count s2 then (Inr (0, Some ErrRWCReset), s2)
         else let s3 = e3 s2
              in case writer of
                   NilRWC \<Rightarrow> (Inl PanicNilDereference, s3)
                 | Ref a \<Rightarrow>
                     (case call_Write I a p s3 of
                        ((n, err), s4) \<Rightarrow>
                          let s5 = e4 s4
                          in if startCount \<noteq> count s5
                             then (Inr (n, Some ErrRWCReset), s5)
                             else (Inr (n, err), s5)))"

text \<open>\<open>Close\<close> runs under the read lock, so no \<open>Reset\<close> happens inside it.\<close>

definition Close :: "'w iface \<Rightarrow> 'w sys \<Rightarrow> (panic + error option) \<times> 'w sys" where
  "Close I s =
     (case rwc s of
        NilRWC \<Rightarrow> (Inl PanicNilDereference, s)
      | Ref a \<Rightarrow> (case call_Close I a s of (e, s') \<Rightarrow> (Inr e, s')))"

text \<open>
  \<open>Reset\<close> on the wrapper at address \<open>r\<close>. The \<open>switch\<close> touches no shared state;
  everything after it runs under the write lock, which the deferred \<open>Unlock\<close> releases
  on return, so it is one step. The result of \<open>old.Close()\<close> is assigned to \<open>_\<close>.
\<close>

definition Reset ::
  "'w iface \<Rightarrow> addr \<Rightarrow> rwc_ref \<Rightarrow> bool \<Rightarrow> 'w sys \<Rightarrow> (panic + error option) \<times> 'w sys" where
  "Reset I r newRWC closeOld s =
     (if newRWC = NilRWC then (Inr (Some ErrResetNil), s)
      else if newRWC = Ref r then (Inr (Some ErrEqualToSelf), s)
      else if rwc s = newRWC then (Inr (Some ErrEqual), s)
      else let old = rwc s;
               s1 = s\<lparr>rwc := newRWC\<rparr>;
               s2 = s1\<lparr>count := count s1 + 1\<rparr>
           in if closeOld
              then (case old of
                      NilRWC \<Rightarrow> (Inl PanicNilDereference, s2)
                    | Ref a \<Rightarrow> (case call_Close I a s2 of (_, s3) \<Rightarrow> (Inr None, s3)))
              else (Inr None, s2))"

definition ResetCount :: "'w sys \<Rightarrow> 64 word" where
  "ResetCount s = count s"

definition RWC :: "'w sys \<Rightarrow> rwc_ref" where
  "RWC s = rwc s"


section \<open>Sequences of operations\<close>

text \<open>
  A sequence of calls on one wrapper, each run to its end before the next begins. A
  panic ends the program, so the run stops there. \<open>run\<close> returns the number of calls of
  \<open>Reset\<close> that returned \<open>nil\<close>, and the state reached.
\<close>

datatype op =
    OpRead "byte list"
  | OpWrite "byte list"
  | OpClose
  | OpReset rwc_ref bool
  | OpResetCount
  | OpRWC

datatype result =
    Panicked panic
  | Transferred int "error option"
  | Returned "error option"
  | Counted "64 word"
  | Resource rwc_ref

fun exec :: "'w iface \<Rightarrow> addr \<Rightarrow> op \<Rightarrow> 'w sys \<Rightarrow> result \<times> 'w sys" where
  "exec I r (OpRead p) s =
     (case Read I id id id id p s of
        (Inl e, s') \<Rightarrow> (Panicked e, s')
      | (Inr (n, err, p'), s') \<Rightarrow> (Transferred n err, s'))"
| "exec I r (OpWrite p) s =
     (case Write I id id id id p s of
        (Inl e, s') \<Rightarrow> (Panicked e, s')
      | (Inr (n, err), s') \<Rightarrow> (Transferred n err, s'))"
| "exec I r OpClose s =
     (case Close I s of
        (Inl e, s') \<Rightarrow> (Panicked e, s')
      | (Inr err, s') \<Rightarrow> (Returned err, s'))"
| "exec I r (OpReset newRWC closeOld) s =
     (case Reset I r newRWC closeOld s of
        (Inl e, s') \<Rightarrow> (Panicked e, s')
      | (Inr err, s') \<Rightarrow> (Returned err, s'))"
| "exec I r OpResetCount s = (Counted (ResetCount s), s)"
| "exec I r OpRWC s = (Resource (RWC s), s)"

fun reset_succeeded :: "op \<Rightarrow> result \<Rightarrow> bool" where
  "reset_succeeded (OpReset newRWC closeOld) (Returned None) = True"
| "reset_succeeded _ _ = False"

fun panicked :: "result \<Rightarrow> bool" where
  "panicked (Panicked e) = True"
| "panicked _ = False"

fun run :: "'w iface \<Rightarrow> addr \<Rightarrow> op list \<Rightarrow> 'w sys \<Rightarrow> nat \<times> 'w sys" where
  "run I r [] s = (0, s)"
| "run I r (x # xs) s =
     (case exec I r x s of
        (res, s') \<Rightarrow>
          if panicked res then (0, s')
          else (case run I r xs s' of
                  (k, s'') \<Rightarrow> ((if reset_succeeded x res then Suc k else k), s'')))"

section \<open>The resources of the tests\<close>

text \<open>
  \<open>mockRWC\<close> of the tests: a \<open>bytes.Buffer\<close> and a \<open>closed\<close> flag (its delay and its
  own mutex have no part in what a call returns). \<open>buf\<close> is the unread part of the
  buffer. \<open>bytes.Buffer.Read\<close> returns \<open>io.EOF\<close> on an empty buffer unless the
  caller's slice is empty, and otherwise copies as many bytes as fit;
  \<open>bytes.Buffer.Write\<close> appends all of \<open>p\<close>.
\<close>

record mockRWC =
  buf :: "byte list"
  closed :: bool

definition newMockRWC :: mockRWC where
  "newMockRWC = \<lparr>buf = [], closed = False\<rparr>"

definition mock_Read ::
  "addr \<Rightarrow> byte list \<Rightarrow> (addr \<Rightarrow> mockRWC) \<Rightarrow> (int \<times> error option \<times> byte list) \<times> (addr \<Rightarrow> mockRWC)" where
  "mock_Read a p w =
     (let m = w a
      in if closed m then ((0, Some ErrClosedPipe, p), w)
         else if buf m = [] then ((0, (if p = [] then None else Some EOF), p), w)
         else let n = min (length p) (length (buf m))
              in ((int n, None, take n (buf m) @ drop n p), w(a := m\<lparr>buf := drop n (buf m)\<rparr>)))"

definition mock_Write ::
  "addr \<Rightarrow> byte list \<Rightarrow> (addr \<Rightarrow> mockRWC) \<Rightarrow> (int \<times> error option) \<times> (addr \<Rightarrow> mockRWC)" where
  "mock_Write a p w =
     (let m = w a
      in if closed m then ((0, Some ErrClosedPipe), w)
         else ((int (length p), None), w(a := m\<lparr>buf := buf m @ p\<rparr>)))"

definition mock_Close :: "addr \<Rightarrow> (addr \<Rightarrow> mockRWC) \<Rightarrow> error option \<times> (addr \<Rightarrow> mockRWC)" where
  "mock_Close a w = (None, w(a := (w a)\<lparr>closed := True\<rparr>))"

definition mock :: "(addr \<Rightarrow> mockRWC) iface" where
  "mock = \<lparr>iRead = mock_Read, iWrite = mock_Write, iClose = mock_Close\<rparr>"

text \<open>
  A resource without state whose \<open>Close\<close> returns a given error: \<open>Read\<close> is at the
  end of the stream, \<open>Write\<close> takes everything.
\<close>

definition failing_closer :: "error \<Rightarrow> unit iface" where
  "failing_closer e =
     \<lparr>iRead = (\<lambda>a p w. ((0, Some EOF, p), w)),
      iWrite = (\<lambda>a p w. ((int (length p), None), w)),
      iClose = (\<lambda>a w. (Some e, w))\<rparr>"


section \<open>Concrete systems\<close>

text \<open>
  A complete call of \<open>Reset\<close> by another goroutine, as interference with a call of
  \<open>Read\<close> or \<open>Write\<close>.
\<close>

definition reset_by :: "'w iface \<Rightarrow> addr \<Rightarrow> rwc_ref \<Rightarrow> bool \<Rightarrow> 'w interference" where
  "reset_by I r newRWC closeOld s = snd (Reset I r newRWC closeOld s)"

text \<open>A sequence of complete calls by other goroutines, as interference.\<close>

definition ops_by :: "'w iface \<Rightarrow> addr \<Rightarrow> op list \<Rightarrow> 'w interference" where
  "ops_by I r ops s = snd (run I r ops s)"

text \<open>
  The systems of the tests: every address holds a new \<open>mockRWC\<close>, the wrapper is the
  object at address 0 and wraps the one at address 10. In \<open>mock_test\<close> the bytes of
  \<open>test\<close> have been written to that resource.
\<close>

definition hello :: "byte list" where
  "hello = [104, 101, 108, 108, 111]"

definition test :: "byte list" where
  "test = [116, 101, 115, 116]"

definition mock_new :: "(addr \<Rightarrow> mockRWC) sys" where
  "mock_new = \<lparr>rwc = Ref 10, count = 0, world = (\<lambda>a. newMockRWC), calls = []\<rparr>"

definition mock_test :: "(addr \<Rightarrow> mockRWC) sys" where
  "mock_test =
     \<lparr>rwc = Ref 10, count = 0, world = (\<lambda>a. newMockRWC)(10 := \<lparr>buf = test, closed = False\<rparr>),
      calls = []\<rparr>"

definition failing_sys :: "unit sys" where
  "failing_sys = \<lparr>rwc = Ref 10, count = 0, world = (), calls = []\<rparr>"

text \<open>\<open>mock_test\<close> after \<open>Read\<close> into four bytes, and after \<open>Write\<close> of \<open>test\<close>.\<close>

definition mock_test_read :: "(addr \<Rightarrow> mockRWC) sys" where
  "mock_test_read =
     \<lparr>rwc = Ref 10, count = 0, world = (\<lambda>a. newMockRWC)(10 := \<lparr>buf = [], closed = False\<rparr>),
      calls = [CallRead 10]\<rparr>"

definition mock_test_written :: "(addr \<Rightarrow> mockRWC) sys" where
  "mock_test_written =
     \<lparr>rwc = Ref 10, count = 0,
      world = (\<lambda>a. newMockRWC)(10 := \<lparr>buf = test @ test, closed = False\<rparr>),
      calls = [CallWrite 10]\<rparr>"

text \<open>
  The calls of \<open>TestResetErrors\<close>, with a look at the counter after the rejected ones
  and a write at the end.
\<close>

definition reset_errors_ops :: "op list" where
  "reset_errors_ops =
     [OpReset NilRWC True, OpReset (Ref 10) True, OpReset (Ref 0) True, OpResetCount,
      OpReset (Ref 20) True, OpWrite hello, OpResetCount]"

section \<open>Evaluating the resources of the tests\<close>

lemma call_Read_mock_test: "call_Read mock 10 test mock_test = ((4, None, test), mock_test_read)"
  by (simp add: call_Read_def mock_def mock_Read_def mock_test_def mock_test_read_def test_def)

lemma call_Write_mock_test: "call_Write mock 10 test mock_test = ((4, None), mock_test_written)"
  by (simp add: call_Write_def mock_def mock_Write_def mock_test_def mock_test_written_def test_def)

section \<open>A reset seen after the call on the resource\<close>

text \<open>
  C1. A call of \<open>Read\<close> or \<open>Write\<close> that got as far as calling the resource, and
  that reads a changed counter after the resource has returned, returns
  \<open>ErrRWCReset\<close> with the byte count \<open>n\<close> of the resource, whatever outcome the
  resource itself returned and whatever other goroutines did in between.
\<close>

theorem reset_after_call_keeps_count:
  "(rwc (e1 s) = Ref a \<longrightarrow> count (e2 (e1 s)) = count s
      \<longrightarrow> call_Read I a p (e3 (e2 (e1 s))) = ((n, err, p'), s4)
      \<longrightarrow> count (e4 s4) \<noteq> count s
      \<longrightarrow> Read I e1 e2 e3 e4 p s = (Inr (n, Some ErrRWCReset, p'), e4 s4))
   \<and> (rwc (e1 s) = Ref a \<longrightarrow> count (e2 (e1 s)) = count s
      \<longrightarrow> call_Write I a p (e3 (e2 (e1 s))) = ((m, werr), t4)
      \<longrightarrow> count (e4 t4) \<noteq> count s
      \<longrightarrow> Write I e1 e2 e3 e4 p s = (Inr (m, Some ErrRWCReset), e4 t4))"
  by (simp add: Read_def Write_def Let_def)

theorem reset_after_call_keeps_count_witness:
  "fst (call_Read mock 10 test mock_test) = (4, None, test)
   \<and> Read mock id id id (reset_by mock 0 (Ref 20) False) test mock_test
       = (Inr (4, Some ErrRWCReset, test), mock_test_read\<lparr>rwc := Ref 20, count := 1\<rparr>)
   \<and> fst (call_Write mock 10 test mock_test) = (4, None)
   \<and> Write mock id id id (reset_by mock 0 (Ref 20) False) test mock_test
       = (Inr (4, Some ErrRWCReset), mock_test_written\<lparr>rwc := Ref 20, count := 1\<rparr>)"
proof -
  let ?e = "reset_by mock 0 (Ref 20) False"
  have h1: "rwc (id mock_test) = Ref 10"
    by (simp add: mock_test_def)
  have h2: "count (id (id mock_test)) = count mock_test"
    by simp
  have r: "call_Read mock 10 test (id (id (id mock_test))) = ((4, None, test), mock_test_read)"
    unfolding id_apply by (rule call_Read_mock_test)
  have w: "call_Write mock 10 test (id (id (id mock_test))) = ((4, None), mock_test_written)"
    unfolding id_apply by (rule call_Write_mock_test)
  have er: "?e mock_test_read = mock_test_read\<lparr>rwc := Ref 20, count := 1\<rparr>"
    by (simp add: reset_by_def Reset_def mock_test_read_def)
  have ew: "?e mock_test_written = mock_test_written\<lparr>rwc := Ref 20, count := 1\<rparr>"
    by (simp add: reset_by_def Reset_def mock_test_written_def)
  have h4r: "count (?e mock_test_read) \<noteq> count mock_test"
    by (simp add: er mock_test_def)
  have h4w: "count (?e mock_test_written) \<noteq> count mock_test"
    by (simp add: ew mock_test_def)
  note T = reset_after_call_keeps_count
    [where ?e1.0 = id and ?e2.0 = id and ?e3.0 = id and ?e4.0 = ?e
       and s = mock_test and a = 10 and I = mock and p = test
       and n = 4 and err = None and p' = test and ?s4.0 = mock_test_read
       and m = 4 and werr = None and ?t4.0 = mock_test_written]
  from T h1 h2 r h4r have "Read mock id id id ?e test mock_test
       = (Inr (4, Some ErrRWCReset, test), ?e mock_test_read)"
    by blast
  moreover from T h1 h2 w h4w have "Write mock id id id ?e test mock_test
       = (Inr (4, Some ErrRWCReset), ?e mock_test_written)"
    by blast
  ultimately show ?thesis
    by (simp add: er ew call_Read_mock_test call_Write_mock_test)
qed

section \<open>Pass-through\<close>

text \<open>
  C2. A call of \<open>Read\<close> or \<open>Write\<close> that reads the same counter at its three loads
  returns the byte count and the outcome of the call on the resource, unchanged.
\<close>

theorem no_reset_pass_through:
  "(rwc (e1 s) = Ref a \<longrightarrow> count (e2 (e1 s)) = count s
      \<longrightarrow> call_Read I a p (e3 (e2 (e1 s))) = ((n, err, p'), s4)
      \<longrightarrow> count (e4 s4) = count s
      \<longrightarrow> Read I e1 e2 e3 e4 p s = (Inr (n, err, p'), e4 s4))
   \<and> (rwc (e1 s) = Ref a \<longrightarrow> count (e2 (e1 s)) = count s
      \<longrightarrow> call_Write I a p (e3 (e2 (e1 s))) = ((m, werr), t4)
      \<longrightarrow> count (e4 t4) = count s
      \<longrightarrow> Write I e1 e2 e3 e4 p s = (Inr (m, werr), e4 t4))"
  by (simp add: Read_def Write_def Let_def)

theorem no_reset_pass_through_witness:
  "Read mock id id id id test mock_test = (Inr (4, None, test), mock_test_read)
   \<and> fst (call_Read mock 10 test mock_test) = (4, None, test)
   \<and> Write mock id id id id test mock_test = (Inr (4, None), mock_test_written)
   \<and> fst (call_Write mock 10 test mock_test) = (4, None)"
proof -
  have h1: "rwc (id mock_test) = Ref 10"
    by (simp add: mock_test_def)
  have h2: "count (id (id mock_test)) = count mock_test"
    by simp
  have r: "call_Read mock 10 test (id (id (id mock_test))) = ((4, None, test), mock_test_read)"
    unfolding id_apply by (rule call_Read_mock_test)
  have w: "call_Write mock 10 test (id (id (id mock_test))) = ((4, None), mock_test_written)"
    unfolding id_apply by (rule call_Write_mock_test)
  have h4r: "count (id mock_test_read) = count mock_test"
    by (simp add: mock_test_read_def mock_test_def)
  have h4w: "count (id mock_test_written) = count mock_test"
    by (simp add: mock_test_written_def mock_test_def)
  note T = no_reset_pass_through
    [where ?e1.0 = id and ?e2.0 = id and ?e3.0 = id and ?e4.0 = id
       and s = mock_test and a = 10 and I = mock and p = test
       and n = 4 and err = None and p' = test and ?s4.0 = mock_test_read
       and m = 4 and werr = None and ?t4.0 = mock_test_written]
  from T h1 h2 r h4r have "Read mock id id id id test mock_test
       = (Inr (4, None, test), id mock_test_read)"
    by blast
  moreover from T h1 h2 w h4w have "Write mock id id id id test mock_test
       = (Inr (4, None), id mock_test_written)"
    by blast
  ultimately show ?thesis
    by (simp add: call_Read_mock_test call_Write_mock_test)
qed

section \<open>Reset\<close>

lemma unat_add_one_64: "unat (c :: 64 word) < 2 ^ 64 - 1 \<Longrightarrow> unat (c + 1) = unat c + 1"
  by (simp add: unat_word_ariths)

text \<open>
  C3. \<open>Reset\<close> with a resource that is not \<open>nil\<close>, not the wrapper and not the
  installed one returns \<open>nil\<close>, installs the resource (\<open>RWC\<close> returns it), and adds
  one to the counter: \<open>Add(1)\<close> on a \<open>uint64\<close>, the next number unless the counter
  was at its maximum. With \<open>closeOld\<close> it calls \<open>Close\<close> on the old resource, once,
  and returns \<open>nil\<close> whatever that call returned; without it the resources are as
  they were. The installed resource is not \<open>nil\<close>, as in every state reached from
  the constructor.
\<close>

theorem Reset_installs:
  "newRWC \<noteq> NilRWC \<Longrightarrow> newRWC \<noteq> Ref r \<Longrightarrow> newRWC \<noteq> rwc s \<Longrightarrow> rwc s = Ref old \<Longrightarrow>
     fst (Reset I r newRWC closeOld s) = Inr None
   \<and> RWC (snd (Reset I r newRWC closeOld s)) = newRWC
   \<and> ResetCount (snd (Reset I r newRWC closeOld s)) = ResetCount s + 1
   \<and> (unat (ResetCount s) < 2 ^ 64 - 1
        \<longrightarrow> unat (ResetCount (snd (Reset I r newRWC closeOld s))) = unat (ResetCount s) + 1)
   \<and> calls (snd (Reset I r newRWC closeOld s))
       = calls s @ (if closeOld then [CallClose old] else [])
   \<and> world (snd (Reset I r newRWC closeOld s))
       = (if closeOld then snd (iClose I old (world s)) else world s)"
  using unat_add_one_64 [of "count s"]
  by (auto simp add: Reset_def call_Close_def RWC_def ResetCount_def Let_def split: prod.splits)

theorem Reset_installs_witness:
  "fst (iClose (failing_closer ErrClosedPipe) 10 (world failing_sys)) = Some ErrClosedPipe
   \<and> Reset (failing_closer ErrClosedPipe) 0 (Ref 20) True failing_sys
       = (Inr None, \<lparr>rwc = Ref 20, count = 1, world = (), calls = [CallClose 10]\<rparr>)
   \<and> RWC (snd (Reset (failing_closer ErrClosedPipe) 0 (Ref 20) True failing_sys)) = Ref 20
   \<and> ResetCount (snd (Reset (failing_closer ErrClosedPipe) 0 (Ref 20) True failing_sys)) = 1"
  using Reset_installs [where newRWC = "Ref 20" and r = 0 and s = failing_sys and old = 10
      and I = "failing_closer ErrClosedPipe" and closeOld = True]
  by (simp add: failing_sys_def failing_closer_def Reset_def call_Close_def RWC_def ResetCount_def)

text \<open>
  C4. \<open>Reset\<close> returns \<open>ErrResetNil\<close> for \<open>nil\<close>, \<open>ErrEqualToSelf\<close> for the wrapper
  itself and \<open>ErrEqual\<close> for the installed resource, and the state is the one before
  the call: resource, counter, resources' state and calls.
\<close>

theorem Reset_rejected:
  "Reset I r NilRWC closeOld s = (Inr (Some ErrResetNil), s)
   \<and> Reset I r (Ref r) closeOld s = (Inr (Some ErrEqualToSelf), s)
   \<and> (newRWC \<noteq> NilRWC \<longrightarrow> newRWC \<noteq> Ref r \<longrightarrow> rwc s = newRWC
        \<longrightarrow> Reset I r newRWC closeOld s = (Inr (Some ErrEqual), s))"
  by (simp add: Reset_def)

theorem Reset_rejected_witness:
  "Reset mock 0 NilRWC True mock_new = (Inr (Some ErrResetNil), mock_new)
   \<and> Reset mock 0 (Ref 0) True mock_new = (Inr (Some ErrEqualToSelf), mock_new)
   \<and> Reset mock 0 (Ref 10) True mock_new = (Inr (Some ErrEqual), mock_new)"
  using Reset_rejected [where I = mock and r = 0 and closeOld = True and s = mock_new
      and newRWC = "Ref 10"]
  by (simp add: mock_new_def)

text \<open>
  C10. The calls \<open>Reset\<close> makes on resources are one \<open>Close\<close> on the replaced
  resource when it returns \<open>nil\<close> and \<open>closeOld\<close> is set, and none otherwise; a
  rejected \<open>Reset\<close> and a \<open>Reset\<close> without \<open>closeOld\<close> leave the state of every
  resource as it was.
\<close>

theorem Reset_closes_only_replaced:
  "calls (snd (Reset I r newRWC closeOld s))
     = calls s @ (if fst (Reset I r newRWC closeOld s) = Inr None \<and> closeOld
                  then (case rwc s of NilRWC \<Rightarrow> [] | Ref old \<Rightarrow> [CallClose old]) else [])
   \<and> (fst (Reset I r newRWC closeOld s) \<noteq> Inr None \<or> \<not> closeOld
        \<longrightarrow> world (snd (Reset I r newRWC closeOld s)) = world s
          \<and> calls (snd (Reset I r newRWC closeOld s)) = calls s)"
  by (auto simp add: Reset_def call_Close_def Let_def split: prod.splits rwc_ref.splits)

theorem Reset_closes_only_replaced_witness:
  "calls (snd (Reset mock 0 (Ref 20) True mock_test)) = [CallClose 10]
   \<and> calls (snd (Reset mock 0 (Ref 20) False mock_test)) = []
   \<and> world (snd (Reset mock 0 (Ref 20) False mock_test)) = world mock_test
   \<and> calls (snd (Reset mock 0 (Ref 10) True mock_test)) = []
   \<and> world (snd (Reset mock 0 (Ref 10) True mock_test)) = world mock_test"
  using Reset_closes_only_replaced [where s = mock_test and I = mock and r = 0
      and newRWC = "Ref 20" and closeOld = True]
    Reset_closes_only_replaced [where s = mock_test and I = mock and r = 0
      and newRWC = "Ref 20" and closeOld = False]
    Reset_closes_only_replaced [where s = mock_test and I = mock and r = 0
      and newRWC = "Ref 10" and closeOld = True]
  by (simp add: mock_test_def Reset_def call_Close_def mock_def mock_Close_def)

section \<open>Invariants of a run\<close>

text \<open>
  While the installed resource is not \<open>nil\<close> no operation panics, the resource stays
  non-nil, and only a \<open>Reset\<close> that returns \<open>nil\<close> changes the counter.
\<close>

lemma Read_not_nil:
  "rwc (e1 s) \<noteq> NilRWC \<Longrightarrow> \<forall>e. fst (Read I e1 e2 e3 e4 p s) \<noteq> Inl e"
  by (auto simp add: Read_def Let_def split: rwc_ref.splits prod.splits)

lemma Write_not_nil:
  "rwc (e1 s) \<noteq> NilRWC \<Longrightarrow> \<forall>e. fst (Write I e1 e2 e3 e4 p s) \<noteq> Inl e"
  by (auto simp add: Write_def Let_def split: rwc_ref.splits prod.splits)

lemma Close_not_nil:
  "rwc s \<noteq> NilRWC \<Longrightarrow> \<forall>e. fst (Close I s) \<noteq> Inl e"
  by (auto simp add: Close_def split: rwc_ref.splits prod.splits)

lemma Read_seq_wrapper:
  "rwc (snd (Read I id id id id p s)) = rwc s \<and> count (snd (Read I id id id id p s)) = count s"
  by (auto simp add: Read_def call_Read_def Let_def split: rwc_ref.splits prod.splits)

lemma Write_seq_wrapper:
  "rwc (snd (Write I id id id id p s)) = rwc s \<and> count (snd (Write I id id id id p s)) = count s"
  by (auto simp add: Write_def call_Write_def Let_def split: rwc_ref.splits prod.splits)

lemma Close_wrapper:
  "rwc (snd (Close I s)) = rwc s \<and> count (snd (Close I s)) = count s"
  by (auto simp add: Close_def call_Close_def split: rwc_ref.splits prod.splits)

lemma Reset_wrapper:
  "rwc s \<noteq> NilRWC \<Longrightarrow>
     (\<forall>e. fst (Reset I r newRWC closeOld s) \<noteq> Inl e)
   \<and> rwc (snd (Reset I r newRWC closeOld s)) \<noteq> NilRWC
   \<and> count (snd (Reset I r newRWC closeOld s))
       = (if fst (Reset I r newRWC closeOld s) = Inr None then count s + 1 else count s)"
  by (auto simp add: Reset_def call_Close_def Let_def split: rwc_ref.splits prod.splits)

lemma reset_succeeded_Returned:
  "reset_succeeded (OpReset newRWC closeOld) (Returned e) \<longleftrightarrow> e = None"
  by (cases e) simp_all

lemma exec_step:
  assumes "rwc s \<noteq> NilRWC"
  shows "\<not> panicked (fst (exec I r x s))"
    and "rwc (snd (exec I r x s)) \<noteq> NilRWC"
    and "count (snd (exec I r x s))
           = (if reset_succeeded x (fst (exec I r x s)) then count s + 1 else count s)"
proof -
  show "\<not> panicked (fst (exec I r x s))"
  proof (cases x)
    case (OpRead p)
    with Read_not_nil [of id s I id id id p] assms show ?thesis
      by (auto split: prod.splits sum.splits)
  next
    case (OpWrite p)
    with Write_not_nil [of id s I id id id p] assms show ?thesis
      by (auto split: prod.splits sum.splits)
  next
    case OpClose
    with Close_not_nil [of s I] assms show ?thesis
      by (auto split: prod.splits sum.splits)
  next
    case (OpReset newRWC closeOld)
    with Reset_wrapper [of s I r newRWC closeOld] assms show ?thesis
      by (auto split: prod.splits sum.splits)
  qed simp_all
  show "rwc (snd (exec I r x s)) \<noteq> NilRWC"
  proof (cases x)
    case (OpRead p)
    with Read_seq_wrapper [of I p s] assms show ?thesis
      by (auto split: prod.splits sum.splits)
  next
    case (OpWrite p)
    with Write_seq_wrapper [of I p s] assms show ?thesis
      by (auto split: prod.splits sum.splits)
  next
    case OpClose
    with Close_wrapper [of I s] assms show ?thesis
      by (auto split: prod.splits sum.splits)
  next
    case (OpReset newRWC closeOld)
    with Reset_wrapper [of s I r newRWC closeOld] assms show ?thesis
      by (auto split: prod.splits sum.splits)
  qed (use assms in simp_all)
  show "count (snd (exec I r x s))
           = (if reset_succeeded x (fst (exec I r x s)) then count s + 1 else count s)"
  proof (cases x)
    case (OpRead p)
    with Read_seq_wrapper [of I p s] show ?thesis
      by (auto split: prod.splits sum.splits)
  next
    case (OpWrite p)
    with Write_seq_wrapper [of I p s] show ?thesis
      by (auto split: prod.splits sum.splits)
  next
    case OpClose
    with Close_wrapper [of I s] show ?thesis
      by (auto split: prod.splits sum.splits)
  next
    case (OpReset newRWC closeOld)
    with Reset_wrapper [of s I r newRWC closeOld] assms show ?thesis
      by (auto simp add: reset_succeeded_Returned split: prod.splits sum.splits)
  qed simp_all
qed

lemma run_invariant:
  "rwc s \<noteq> NilRWC \<Longrightarrow>
     rwc (snd (run I r ops s)) \<noteq> NilRWC
   \<and> count (snd (run I r ops s)) = count s + of_nat (fst (run I r ops s))"
proof (induction ops arbitrary: s)
  case Nil
  then show ?case by simp
next
  case (Cons x xs)
  obtain res s' where e: "exec I r x s = (res, s')"
    by (cases "exec I r x s")
  from exec_step [OF Cons.prems, of I r x] e
  have np: "\<not> panicked res" and nn: "rwc s' \<noteq> NilRWC"
    and c: "count s' = (if reset_succeeded x res then count s + 1 else count s)"
    by simp_all
  obtain k s'' where rn: "run I r xs s' = (k, s'')"
    by (cases "run I r xs s'")
  from Cons.IH [OF nn] rn have "rwc s'' \<noteq> NilRWC" and "count s'' = count s' + of_nat k"
    by simp_all
  with e np c rn show ?case
    by simp
qed

lemma run_append:
  "rwc s \<noteq> NilRWC \<Longrightarrow>
     run I r (xs @ ys) s
       = (fst (run I r xs s) + fst (run I r ys (snd (run I r xs s))),
          snd (run I r ys (snd (run I r xs s))))"
proof (induction xs arbitrary: s)
  case Nil
  then show ?case by simp
next
  case (Cons x xs)
  obtain res s' where e: "exec I r x s = (res, s')"
    by (cases "exec I r x s")
  from exec_step [OF Cons.prems, of I r x] e
  have np: "\<not> panicked res" and nn: "rwc s' \<noteq> NilRWC"
    by simp_all
  from Cons.IH [OF nn] e np show ?case
    by (simp split: prod.splits)
qed

lemma start_Inr:
  "start x w = Inr s0 \<Longrightarrow> x \<noteq> NilRWC \<and> s0 = \<lparr>rwc = x, count = 0, world = w, calls = []\<rparr>"
  by (auto simp add: start_def NewResReadWriteCloser_def split: if_splits)

lemma unat_of_nat_64: "k < 2 ^ 64 \<Longrightarrow> unat (of_nat k :: 64 word) = k"
  by (simp add: unat_of_nat)

lemma run_reset_errors_ops:
  "run mock 0 reset_errors_ops mock_new
     = (1, \<lparr>rwc = Ref 20, count = 1,
            world = (\<lambda>a. newMockRWC)(10 := \<lparr>buf = [], closed = True\<rparr>,
                                       20 := \<lparr>buf = hello, closed = False\<rparr>),
            calls = [CallClose 10, CallWrite 20]\<rparr>)"
  by (simp add: reset_errors_ops_def mock_new_def Reset_def Write_def call_Close_def
      call_Write_def mock_def mock_Close_def mock_Write_def newMockRWC_def ResetCount_def
      fun_upd_twist)

section \<open>The generation counter\<close>

text \<open>
  C5. The counter of a new wrapper is 0. Along every sequence of operations it is the
  number of calls of \<open>Reset\<close> that returned \<open>nil\<close>, as a \<open>uint64\<close>: a \<open>Reset\<close> that
  returns \<open>nil\<close> adds one, no other operation changes it, and \<open>ResetCount\<close> returns
  it and leaves the state as it is. While fewer than \<open>2 ^ 64\<close> resets have succeeded,
  which the specification assumes, the counter is that number itself and it never
  decreases.
\<close>

theorem ResetCount_counts_resets:
  "start x w = Inr s0 \<Longrightarrow>
     ResetCount s0 = 0
   \<and> ResetCount (snd (run I r ops s0)) = of_nat (fst (run I r ops s0))
   \<and> (fst (run I r ops s0) < 2 ^ 64
        \<longrightarrow> unat (ResetCount (snd (run I r ops s0))) = fst (run I r ops s0))
   \<and> (fst (run I r (ops @ ops') s0) < 2 ^ 64
        \<longrightarrow> ResetCount (snd (run I r ops s0)) \<le> ResetCount (snd (run I r (ops @ ops') s0)))
   \<and> ResetCount (snd (exec I r x' (snd (run I r ops s0))))
       = (if reset_succeeded x' (fst (exec I r x' (snd (run I r ops s0))))
          then ResetCount (snd (run I r ops s0)) + 1
          else ResetCount (snd (run I r ops s0)))
   \<and> exec I r OpResetCount (snd (run I r ops s0))
       = (Counted (ResetCount (snd (run I r ops s0))), snd (run I r ops s0))"
proof -
  assume st: "start x w = Inr s0"
  then have nn: "rwc s0 \<noteq> NilRWC" and c0: "count s0 = 0"
    using start_Inr [OF st] by simp_all
  have inv: "rwc (snd (run I r ys s0)) \<noteq> NilRWC"
    and cnt: "count (snd (run I r ys s0)) = of_nat (fst (run I r ys s0))" for ys
    using run_invariant [OF nn, of I r ys] c0 by simp_all
  have bounded: "unat (count (snd (run I r ys s0))) = fst (run I r ys s0)"
    if "fst (run I r ys s0) < 2 ^ 64" for ys
    using that cnt [of ys] by (simp add: unat_of_nat_64)
  have mono: "count (snd (run I r ops s0)) \<le> count (snd (run I r (ops @ ops') s0))"
    if b: "fst (run I r (ops @ ops') s0) < 2 ^ 64"
  proof -
    from run_append [OF nn, of I r ops ops']
    have le: "fst (run I r ops s0) \<le> fst (run I r (ops @ ops') s0)"
      by simp
    with b have "fst (run I r ops s0) < 2 ^ 64"
      by simp
    with bounded [of ops] bounded [OF b] le show ?thesis
      by (simp add: word_le_nat_alt)
  qed
  from exec_step(3) [OF inv, where x = x' and I = I and r = r] c0 cnt bounded mono show ?thesis
    by (simp add: ResetCount_def)
qed

theorem ResetCount_counts_resets_witness:
  "start (Ref 10) (\<lambda>a. newMockRWC) = Inr mock_new
   \<and> ResetCount mock_new = 0
   \<and> fst (run mock 0 reset_errors_ops mock_new) = 1
   \<and> ResetCount (snd (run mock 0 reset_errors_ops mock_new)) = 1
   \<and> unat (ResetCount (snd (run mock 0 reset_errors_ops mock_new))) = 1"
proof -
  have st: "start (Ref 10) (\<lambda>a. newMockRWC) = Inr mock_new"
    by (simp add: start_def NewResReadWriteCloser_def mock_new_def)
  from ResetCount_counts_resets [OF st, of mock 0 reset_errors_ops] st show ?thesis
    by (simp add: run_reset_errors_ops)
qed

section \<open>Construction\<close>

text \<open>
  C8. \<open>NewResReadWriteCloser\<close> with \<open>nil\<close> panics and returns no wrapper. With a
  resource it returns a wrapper holding that resource. From there on, after any
  sequence of operations, the installed resource is not \<open>nil\<close>: no operation panics
  on a nil resource, nor do \<open>Read\<close> and \<open>Write\<close> when sequences of operations of other
  goroutines run between their steps, nor does \<open>Close\<close>.
\<close>

theorem constructor_rejects_nil:
  "NewResReadWriteCloser NilRWC = Inl PanicNilNotPermitted
   \<and> start NilRWC w = Inl PanicNilNotPermitted
   \<and> (x \<noteq> NilRWC \<longrightarrow>
        NewResReadWriteCloser x = Inr \<lparr>rwc = x, count = 0\<rparr>
      \<and> start x w = Inr \<lparr>rwc = x, count = 0, world = w, calls = []\<rparr>)
   \<and> (start x w = Inr s0 \<longrightarrow>
        rwc (ops_by I r ops s0) \<noteq> NilRWC
      \<and> \<not> panicked (fst (exec I r x' (ops_by I r ops s0)))
      \<and> (\<forall>e. fst (Read I (ops_by I r o1) (ops_by I r o2) (ops_by I r o3) (ops_by I r o4) p
                   (ops_by I r ops s0)) \<noteq> Inl e)
      \<and> (\<forall>e. fst (Write I (ops_by I r o1) (ops_by I r o2) (ops_by I r o3) (ops_by I r o4) p
                   (ops_by I r ops s0)) \<noteq> Inl e)
      \<and> (\<forall>e. fst (Close I (ops_by I r ops s0)) \<noteq> Inl e))"
proof -
  let ?s = "ops_by I r ops s0"
  have new: "NewResReadWriteCloser NilRWC = Inl PanicNilNotPermitted"
    "start NilRWC w = Inl PanicNilNotPermitted"
    "x \<noteq> NilRWC \<longrightarrow>
        NewResReadWriteCloser x = Inr \<lparr>rwc = x, count = 0\<rparr>
      \<and> start x w = Inr \<lparr>rwc = x, count = 0, world = w, calls = []\<rparr>"
    by (simp_all add: NewResReadWriteCloser_def start_def)
  have "rwc ?s \<noteq> NilRWC \<and> \<not> panicked (fst (exec I r x' ?s))
      \<and> (\<forall>e. fst (Read I (ops_by I r o1) (ops_by I r o2) (ops_by I r o3)
                   (ops_by I r o4) p ?s) \<noteq> Inl e)
      \<and> (\<forall>e. fst (Write I (ops_by I r o1) (ops_by I r o2) (ops_by I r o3)
                   (ops_by I r o4) p ?s) \<noteq> Inl e)
      \<and> (\<forall>e. fst (Close I ?s) \<noteq> Inl e)" if st: "start x w = Inr s0"
  proof -
    from start_Inr [OF st] have "rwc s0 \<noteq> NilRWC"
      by simp
    from run_invariant [OF this, of I r ops] have inv: "rwc ?s \<noteq> NilRWC"
      by (simp add: ops_by_def)
    from run_invariant [OF inv, of I r o1] have inv1: "rwc (ops_by I r o1 ?s) \<noteq> NilRWC"
      by (simp add: ops_by_def)
    from inv exec_step(1) [OF inv]
      Read_not_nil [where ?e1.0 = "ops_by I r o1" and s = ?s, OF inv1]
      Write_not_nil [where ?e1.0 = "ops_by I r o1" and s = ?s, OF inv1]
      Close_not_nil [OF inv]
    show ?thesis
      by blast
  qed
  with new show ?thesis
    by blast
qed

theorem constructor_rejects_nil_witness:
  "NewResReadWriteCloser NilRWC = Inl PanicNilNotPermitted
   \<and> NewResReadWriteCloser (Ref 10) = Inr \<lparr>rwc = Ref 10, count = 0\<rparr>
   \<and> start (Ref 10) (\<lambda>a. newMockRWC) = Inr mock_new
   \<and> rwc (ops_by mock 0 reset_errors_ops mock_new) = Ref 20
   \<and> fst (Close mock (ops_by mock 0 reset_errors_ops mock_new)) = Inr None"
proof -
  have ne: "Ref 10 \<noteq> NilRWC"
    by simp
  have st: "start (Ref 10) (\<lambda>a. newMockRWC) = Inr mock_new"
    by (simp add: start_def NewResReadWriteCloser_def mock_new_def)
  note T = constructor_rejects_nil [where x = "Ref 10" and w = "\<lambda>a. newMockRWC" and I = mock
      and r = 0 and ops = reset_errors_ops and ?s0.0 = mock_new]
  from T ne st have "NewResReadWriteCloser NilRWC = Inl PanicNilNotPermitted"
    and "NewResReadWriteCloser (Ref 10) = Inr \<lparr>rwc = Ref 10, count = 0\<rparr>"
    and "start (Ref 10) (\<lambda>a. newMockRWC) = Inr mock_new"
    by blast+
  moreover have "ops_by mock 0 reset_errors_ops mock_new
     = \<lparr>rwc = Ref 20, count = 1,
            world = (\<lambda>a. newMockRWC)(10 := \<lparr>buf = [], closed = True\<rparr>,
                                       20 := \<lparr>buf = hello, closed = False\<rparr>),
            calls = [CallClose 10, CallWrite 20]\<rparr>"
    by (simp add: ops_by_def run_reset_errors_ops)
  ultimately show ?thesis
    by (simp add: Close_def call_Close_def mock_def mock_Close_def)
qed

section \<open>When a reset is seen\<close>

lemma Reset_success_count:
  "fst (Reset I r newRWC closeOld s) = Inr None \<Longrightarrow>
     count (snd (Reset I r newRWC closeOld s)) = count s + 1"
  by (auto simp add: Reset_def call_Close_def Let_def split: if_splits rwc_ref.splits prod.splits)

text \<open>
  C6, as stated, fails. A \<open>Reset\<close> that has returned before \<open>Write\<close> is called is not
  seen by it: \<open>Write\<close> loads the counter the \<open>Reset\<close> left, calls the new resource
  and returns what that returns. Here \<open>Reset\<close> replaces the resource at address 10 by
  the one at address 20, and the \<open>Write\<close> of five bytes that follows returns
  \<open>(5, nil)\<close> after a call on the resource at address 20.
\<close>

theorem reset_before_call_not_detected:
  "Reset mock 0 (Ref 20) True mock_new
     = (Inr None, \<lparr>rwc = Ref 20, count = 1,
                    world = (\<lambda>a. newMockRWC)(10 := \<lparr>buf = [], closed = True\<rparr>),
                    calls = [CallClose 10]\<rparr>)
   \<and> Write mock id id id id hello (snd (Reset mock 0 (Ref 20) True mock_new))
     = (Inr (5, None),
        \<lparr>rwc = Ref 20, count = 1,
         world = (\<lambda>a. newMockRWC)(10 := \<lparr>buf = [], closed = True\<rparr>,
                                    20 := \<lparr>buf = hello, closed = False\<rparr>),
         calls = [CallClose 10, CallWrite 20]\<rparr>)
   \<and> fst (Write mock id id id id hello (snd (Reset mock 0 (Ref 20) True mock_new)))
     \<noteq> Inr (0, Some ErrRWCReset)"
  by (simp add: mock_new_def Reset_def Write_def call_Close_def call_Write_def mock_def
      mock_Close_def mock_Write_def newMockRWC_def hello_def)

text \<open>
  C6, amended. When the counter changes after \<open>Read\<close> or \<open>Write\<close> has loaded it and
  before its check ahead of the call, the \<open>Read\<close> or \<open>Write\<close> returns
  \<open>ErrRWCReset\<close> with 0 bytes, and the state it leaves is the one the other
  goroutines left: no call on a resource was made and the buffer is as it was. A
  \<open>Reset\<close> of another goroutine that returns \<open>nil\<close> in that window, before or after
  the snapshot of the resource, changes the counter, and so is seen in this way.
\<close>

theorem reset_before_call_detected:
  "(count (e2 (e1 s)) \<noteq> count s \<longrightarrow>
       Read I e1 e2 e3 e4 p s = (Inr (0, Some ErrRWCReset, p), e2 (e1 s))
     \<and> Write I e1 e2 e3 e4 p s = (Inr (0, Some ErrRWCReset), e2 (e1 s)))
   \<and> (fst (Reset I r newRWC closeOld s) = Inr None \<longrightarrow>
       count (reset_by I r newRWC closeOld s) \<noteq> count s
     \<and> Read I (reset_by I r newRWC closeOld) id e3 e4 p s
         = (Inr (0, Some ErrRWCReset, p), reset_by I r newRWC closeOld s)
     \<and> Read I id (reset_by I r newRWC closeOld) e3 e4 p s
         = (Inr (0, Some ErrRWCReset, p), reset_by I r newRWC closeOld s)
     \<and> Write I (reset_by I r newRWC closeOld) id e3 e4 p s
         = (Inr (0, Some ErrRWCReset), reset_by I r newRWC closeOld s)
     \<and> Write I id (reset_by I r newRWC closeOld) e3 e4 p s
         = (Inr (0, Some ErrRWCReset), reset_by I r newRWC closeOld s))"
  using Reset_success_count [of I r newRWC closeOld s]
  by (simp add: Read_def Write_def reset_by_def Let_def)

theorem reset_before_call_detected_witness:
  "fst (Reset mock 0 (Ref 20) True mock_new) = Inr None
   \<and> count (id (reset_by mock 0 (Ref 20) True mock_new)) \<noteq> count mock_new
   \<and> Write mock (reset_by mock 0 (Ref 20) True) id id id hello mock_new
       = (Inr (0, Some ErrRWCReset),
          \<lparr>rwc = Ref 20, count = 1,
           world = (\<lambda>a. newMockRWC)(10 := \<lparr>buf = [], closed = True\<rparr>),
           calls = [CallClose 10]\<rparr>)
   \<and> Read mock id (reset_by mock 0 (Ref 20) True) id id hello mock_new
       = (Inr (0, Some ErrRWCReset, hello),
          \<lparr>rwc = Ref 20, count = 1,
           world = (\<lambda>a. newMockRWC)(10 := \<lparr>buf = [], closed = True\<rparr>),
           calls = [CallClose 10]\<rparr>)"
proof -
  let ?e = "reset_by mock 0 (Ref 20) True"
  have R: "Reset mock 0 (Ref 20) True mock_new
     = (Inr None, \<lparr>rwc = Ref 20, count = 1,
                    world = (\<lambda>a. newMockRWC)(10 := \<lparr>buf = [], closed = True\<rparr>),
                    calls = [CallClose 10]\<rparr>)"
    by (simp add: mock_new_def Reset_def call_Close_def mock_def mock_Close_def newMockRWC_def)
  then have ok: "fst (Reset mock 0 (Ref 20) True mock_new) = Inr None"
    by simp
  from R have changed: "count (id (?e mock_new)) \<noteq> count mock_new"
    by (simp add: reset_by_def mock_new_def)
  note T = reset_before_call_detected [where I = mock and r = 0 and newRWC = "Ref 20"
      and closeOld = True and s = mock_new and ?e1.0 = ?e and ?e2.0 = id
      and ?e3.0 = id and ?e4.0 = id and p = hello]
  from T changed have "Write mock ?e id id id hello mock_new
      = (Inr (0, Some ErrRWCReset), id (?e mock_new))"
    by blast
  moreover from T ok have "Read mock id ?e id id hello mock_new
      = (Inr (0, Some ErrRWCReset, hello), ?e mock_new)"
    by blast
  ultimately show ?thesis
    using ok changed R by (simp add: reset_by_def)
qed

text \<open>
  C7, as stated, fails. The check after the call on the resource comes after that
  call has returned, so a \<open>Reset\<close> between the two is seen: the \<open>Write\<close> of five
  bytes on the resource returns \<open>(5, nil)\<close>, a \<open>Reset\<close> follows, and the wrapper's
  \<open>Write\<close> returns \<open>(5, ErrRWCReset)\<close>.
\<close>

theorem reset_after_return_before_check:
  "fst (call_Write mock 10 hello mock_new) = (5, None)
   \<and> Write mock id id id (reset_by mock 0 (Ref 20) False) hello mock_new
     = (Inr (5, Some ErrRWCReset),
        \<lparr>rwc = Ref 20, count = 1,
         world = (\<lambda>a. newMockRWC)(10 := \<lparr>buf = hello, closed = False\<rparr>),
         calls = [CallWrite 10]\<rparr>)
   \<and> fst (Write mock id id id (reset_by mock 0 (Ref 20) False) hello mock_new)
     \<noteq> Inr (fst (call_Write mock 10 hello mock_new))"
  by (simp add: mock_new_def Reset_def Write_def reset_by_def call_Write_def mock_def
      mock_Write_def newMockRWC_def hello_def)

text \<open>
  C7, amended. A \<open>Reset\<close> after \<open>Read\<close> or \<open>Write\<close> has returned, and so after its
  last load of the counter, finds the state the call on the resource left, and the
  \<open>Read\<close> or \<open>Write\<close> has returned the byte count and outcome of that call. A
  \<open>Reset\<close> that returns \<open>nil\<close> between the return of the call on the resource and the
  check after it leaves the byte count and the buffer as the resource returned them
  and replaces the outcome by \<open>ErrRWCReset\<close>.
\<close>

theorem reset_after_check_unseen:
  "(rwc s = Ref a \<longrightarrow> call_Read I a p s = ((n, err, p'), s4) \<longrightarrow>
       Read I id id id id p s = (Inr (n, err, p'), s4)
     \<and> Reset I r newRWC closeOld (snd (Read I id id id id p s)) = Reset I r newRWC closeOld s4
     \<and> (fst (Reset I r newRWC closeOld s4) = Inr None \<longrightarrow>
          Read I id id id (reset_by I r newRWC closeOld) p s
            = (Inr (n, Some ErrRWCReset, p'), reset_by I r newRWC closeOld s4)))
   \<and> (rwc s = Ref a \<longrightarrow> call_Write I a p s = ((m, werr), t4) \<longrightarrow>
       Write I id id id id p s = (Inr (m, werr), t4)
     \<and> Reset I r newRWC closeOld (snd (Write I id id id id p s)) = Reset I r newRWC closeOld t4
     \<and> (fst (Reset I r newRWC closeOld t4) = Inr None \<longrightarrow>
          Write I id id id (reset_by I r newRWC closeOld) p s
            = (Inr (m, Some ErrRWCReset), reset_by I r newRWC closeOld t4)))"
proof -
  have c: "count s4 = count s" if "call_Read I a p s = ((n, err, p'), s4)"
    using that by (auto simp add: call_Read_def split: prod.splits)
  have d: "count t4 = count s" if "call_Write I a p s = ((m, werr), t4)"
    using that by (auto simp add: call_Write_def split: prod.splits)
  show ?thesis
    using c d Reset_success_count [of I r newRWC closeOld s4]
      Reset_success_count [of I r newRWC closeOld t4]
    by (simp add: Read_def Write_def reset_by_def Let_def)
qed

theorem reset_after_check_unseen_witness:
  "call_Read mock 10 test mock_test = ((4, None, test), mock_test_read)
   \<and> Read mock id id id id test mock_test = (Inr (4, None, test), mock_test_read)
   \<and> fst (Reset mock 0 (Ref 20) False mock_test_read) = Inr None
   \<and> Read mock id id id (reset_by mock 0 (Ref 20) False) test mock_test
       = (Inr (4, Some ErrRWCReset, test), mock_test_read\<lparr>rwc := Ref 20, count := 1\<rparr>)
   \<and> call_Write mock 10 test mock_test = ((4, None), mock_test_written)
   \<and> Write mock id id id id test mock_test = (Inr (4, None), mock_test_written)
   \<and> fst (Reset mock 0 (Ref 20) False mock_test_written) = Inr None
   \<and> Write mock id id id (reset_by mock 0 (Ref 20) False) test mock_test
       = (Inr (4, Some ErrRWCReset), mock_test_written\<lparr>rwc := Ref 20, count := 1\<rparr>)"
proof -
  have h: "rwc mock_test = Ref 10"
    by (simp add: mock_test_def)
  have er: "Reset mock 0 (Ref 20) False mock_test_read
      = (Inr None, mock_test_read\<lparr>rwc := Ref 20, count := 1\<rparr>)"
    by (simp add: Reset_def mock_test_read_def)
  have ew: "Reset mock 0 (Ref 20) False mock_test_written
      = (Inr None, mock_test_written\<lparr>rwc := Ref 20, count := 1\<rparr>)"
    by (simp add: Reset_def mock_test_written_def)
  note T = reset_after_check_unseen
    [where s = mock_test and a = 10 and I = mock and p = test and r = 0
       and newRWC = "Ref 20" and closeOld = False
       and n = 4 and err = None and p' = test and ?s4.0 = mock_test_read
       and m = 4 and werr = None and ?t4.0 = mock_test_written]
  from T h call_Read_mock_test call_Write_mock_test er ew show ?thesis
    by (simp add: reset_by_def)
qed

section \<open>Close\<close>

text \<open>
  C9, as stated, fails. \<open>Close\<close> returns what \<open>Close\<close> of the resource returns, and
  that may be \<open>ErrRWCReset\<close>, an exported error value that any resource can return.
\<close>

theorem Close_returns_reset_error_of_resource:
  "Close (failing_closer ErrRWCReset) failing_sys
     = (Inr (Some ErrRWCReset),
        \<lparr>rwc = Ref 10, count = 0, world = (), calls = [CallClose 10]\<rparr>)"
  by (simp add: Close_def call_Close_def failing_closer_def failing_sys_def)

text \<open>
  C9, amended. \<open>Close\<close> returns the outcome of \<open>Close\<close> of the installed resource,
  whatever the counter is, so it returns \<open>ErrRWCReset\<close> only when the resource
  did. It makes that one call and leaves the resource and the counter of the wrapper
  as they were, and a \<open>Reset\<close> after it with a resource that is not \<open>nil\<close>, not the
  wrapper and not the installed one returns \<open>nil\<close> and installs it.
\<close>

theorem Close_passes_outcome:
  "rwc s = Ref a \<Longrightarrow>
     fst (Close I s) = Inr (fst (iClose I a (world s)))
   \<and> fst (Close I (s\<lparr>count := c\<rparr>)) = fst (Close I s)
   \<and> (fst (Close I s) = Inr (Some ErrRWCReset)
        \<longleftrightarrow> fst (iClose I a (world s)) = Some ErrRWCReset)
   \<and> calls (snd (Close I s)) = calls s @ [CallClose a]
   \<and> RWC (snd (Close I s)) = RWC s
   \<and> ResetCount (snd (Close I s)) = ResetCount s
   \<and> (newRWC \<noteq> NilRWC \<longrightarrow> newRWC \<noteq> Ref r \<longrightarrow> newRWC \<noteq> Ref a \<longrightarrow>
         fst (Reset I r newRWC closeOld (snd (Close I s))) = Inr None
       \<and> RWC (snd (Reset I r newRWC closeOld (snd (Close I s)))) = newRWC)"
  by (auto simp add: Close_def Reset_def call_Close_def RWC_def ResetCount_def Let_def
      split: prod.splits)

theorem Close_passes_outcome_witness:
  "Close mock mock_test
     = (Inr None,
        \<lparr>rwc = Ref 10, count = 0,
         world = (\<lambda>a. newMockRWC)(10 := \<lparr>buf = test, closed = True\<rparr>),
         calls = [CallClose 10]\<rparr>)
   \<and> fst (iClose mock 10 (world mock_test)) = None
   \<and> fst (Reset mock 0 (Ref 20) True (snd (Close mock mock_test))) = Inr None
   \<and> RWC (snd (Reset mock 0 (Ref 20) True (snd (Close mock mock_test)))) = Ref 20"
proof -
  have h: "rwc mock_test = Ref 10"
    by (simp add: mock_test_def)
  from Close_passes_outcome [OF h, of mock _ "Ref 20" 0 True] show ?thesis
    by (simp add: Close_def call_Close_def mock_def mock_Close_def mock_test_def)
qed

end
